theory Spec2Isabelle
  imports Complex_Main
begin

section \<open>Pressure-volume loop simulator: the hemodynamic state engine\<close>

text \<open>
  The engine of \<^verbatim>\<open>src/src/PVLoop.jsx\<close>. A JavaScript number is modelled as an exact
  real: rounding is left out, so every statement below is about the arithmetic the
  source writes down, carried out exactly. Over the reals a quotient by zero and the
  logarithm of a number that is not positive have no meaning, so the real-valued
  functions stand for the source only where no such operation occurs; the pinned-mode
  solver, whose divisors and logarithm depend on its arguments, is also modelled over
  numbers with \<^verbatim>\<open>Infinity\<close> and \<^verbatim>\<open>NaN\<close>. The decimal literals of the source are written
  as fractions (\<open>2.5\<close> is \<open>5 / 2\<close>, \<open>0.02\<close> is \<open>1 / 50\<close>, \<open>0.001\<close> is
  \<open>1 / 1000\<close>).
\<close>

subsection \<open>Constants and the state object\<close>

definition V0 :: real where
  "V0 = 10"

definition A_ED :: real where
  "A_ED = 1 / 2"

definition REF_ALPHA :: real where
  "REF_ALPHA = 1 / 50"

text \<open>The object \<^verbatim>\<open>{ EDV, ESV, ESP, SV, EF, LVEDP, esvP0 }\<close> both solvers return.\<close>

record hstate =
  EDV :: real
  ESV :: real
  ESP :: real
  SV :: real
  EF :: real
  LVEDP :: real
  esvP0 :: real

subsection \<open>Boundary curves\<close>

definition edpvr :: "real \<Rightarrow> real \<Rightarrow> real" where
  "edpvr V alpha = A_ED * (exp (alpha * V) - 1)"

definition espvr :: "real \<Rightarrow> real \<Rightarrow> real" where
  "espvr V Ees = Ees * (V - V0)"

subsection \<open>Compliance-driven preload\<close>

definition getEffectiveEDV :: "real \<Rightarrow> real \<Rightarrow> real" where
  "getEffectiveEDV sliderEDV alpha =
     (if \<bar>alpha - REF_ALPHA\<bar> < 1 / 1000 then sliderEDV
      else
        let refLVEDP = A_ED * (exp (REF_ALPHA * sliderEDV) - 1) in
        if alpha \<le> 1 / 1000 then min (sliderEDV * (13 / 10)) 200
        else
          let edv = ln (refLVEDP / A_ED + 1) / alpha in
          max 50 (min edv 200))"

subsection \<open>The two solvers\<close>

definition computeState :: "real \<Rightarrow> real \<Rightarrow> real \<Rightarrow> real \<Rightarrow> hstate" where
  "computeState Ees edv Ea alpha =
     (let esv = (Ea * edv + Ees * V0) / (Ees + Ea);
          esp = Ees * (esv - V0);
          sv = edv - esv;
          ef = (sv / edv) * 100;
          lvedp = A_ED * (exp (alpha * edv) - 1);
          p0 = A_ED * (exp (alpha * esv) - 1)
      in \<lparr>EDV = edv, ESV = esv, ESP = esp, SV = sv, EF = ef, LVEDP = lvedp, esvP0 = p0\<rparr>)"

definition computePinned :: "real \<Rightarrow> real \<Rightarrow> real \<Rightarrow> real \<Rightarrow> real \<Rightarrow> hstate" where
  "computePinned Ees sliderEDV alpha refESP refLVEDP =
     (let edv = max 50 (min (ln (refLVEDP / A_ED + 1) / alpha) sliderEDV);
          esv = min (refESP / Ees + V0) (edv - 1);
          esp = refESP;
          sv = edv - esv;
          ef = (sv / edv) * 100;
          lvedp = A_ED * (exp (alpha * edv) - 1);
          p0 = A_ED * (exp (alpha * esv) - 1)
      in \<lparr>EDV = edv, ESV = esv, ESP = esp, SV = sv, EF = ef, LVEDP = lvedp, esvP0 = p0\<rparr>)"

subsection \<open>The scenario table and the baseline state\<close>

text \<open>
  Of each entry of \<^verbatim>\<open>SC\<close> the engine reads the four numbers only; the label, colour,
  highlight and teaching steps are presentation data.
\<close>

datatype sckey =
  SC_normal | SC_hfref | SC_hfpef | SC_as | SC_ar | SC_ms | SC_mr
  | SC_hemorrhage | SC_fluid | SC_inotrope

record params =
  Ees_of :: real
  EDV_of :: real
  Ea_of :: real
  alpha_of :: real

fun SC :: "sckey \<Rightarrow> params" where
  "SC SC_normal = \<lparr>Ees_of = 5 / 2, EDV_of = 120, Ea_of = 2, alpha_of = 1 / 50\<rparr>"
| "SC SC_hfref = \<lparr>Ees_of = 1, EDV_of = 180, Ea_of = 11 / 5, alpha_of = 1 / 50\<rparr>"
| "SC SC_hfpef = \<lparr>Ees_of = 3, EDV_of = 105, Ea_of = 11 / 5, alpha_of = 7 / 200\<rparr>"
| "SC SC_as = \<lparr>Ees_of = 3, EDV_of = 130, Ea_of = 7 / 2, alpha_of = 1 / 50\<rparr>"
| "SC SC_ar = \<lparr>Ees_of = 5 / 2, EDV_of = 180, Ea_of = 3 / 2, alpha_of = 9 / 500\<rparr>"
| "SC SC_ms = \<lparr>Ees_of = 5 / 2, EDV_of = 90, Ea_of = 2, alpha_of = 1 / 50\<rparr>"
| "SC SC_mr = \<lparr>Ees_of = 5 / 2, EDV_of = 160, Ea_of = 6 / 5, alpha_of = 1 / 50\<rparr>"
| "SC SC_hemorrhage = \<lparr>Ees_of = 14 / 5, EDV_of = 85, Ea_of = 5 / 2, alpha_of = 1 / 50\<rparr>"
| "SC SC_fluid = \<lparr>Ees_of = 5 / 2, EDV_of = 150, Ea_of = 2, alpha_of = 1 / 50\<rparr>"
| "SC SC_inotrope = \<lparr>Ees_of = 4, EDV_of = 120, Ea_of = 2, alpha_of = 1 / 50\<rparr>"

definition NORM :: params where
  "NORM = SC SC_normal"

definition normSt :: hstate where
  "normSt = computeState (Ees_of NORM) (EDV_of NORM) (Ea_of NORM) (alpha_of NORM)"

subsection \<open>The loop generator\<close>

text \<open>
  \<^verbatim>\<open>makeLoop\<close> pushes the samples of four \<^verbatim>\<open>for\<close> loops onto one array \<^verbatim>\<open>pts\<close>
  and then writes every point out in drawing coordinates. The functions below are the
  bodies of the four loops, each returning the pair it pushes at counter \<open>i\<close>;
  \<open>makeLoop_pts\<close> is the array before it is written out.
\<close>

definition phase_a :: "hstate \<Rightarrow> real \<Rightarrow> nat \<Rightarrow> real \<times> real" where
  "phase_a st alpha i =
     (let v = ESV st + (EDV st - ESV st) * (real i / 20);
          p = edpvr v alpha
      in (v, min p 60))"

definition phase_b :: "hstate \<Rightarrow> nat \<Rightarrow> real \<times> real" where
  "phase_b st i =
     (let f = real i / 12;
          p = min (LVEDP st) 60 + (ESP st - min (LVEDP st) 60) * f
      in (EDV st, p))"

definition phase_c :: "hstate \<Rightarrow> real \<Rightarrow> nat \<Rightarrow> real \<times> real" where
  "phase_c st Ees i =
     (let f = real i / 20;
          v = EDV st - (EDV st - ESV st) * f;
          straightP = ESP st;
          peakBow = 8;
          bow = peakBow * sin (f * pi);
          espvrAtV = espvr v Ees;
          p = min (straightP + bow) (espvrAtV + 5)
      in (v, max p (ESP st - 15)))"

definition phase_d :: "hstate \<Rightarrow> nat \<Rightarrow> real \<times> real" where
  "phase_d st i =
     (let f = real i / 12;
          p = ESP st - (ESP st - min (esvP0 st) 30) * f
      in (ESV st, p))"

text \<open>\<^verbatim>\<open>for (let i = 0; i <= n; i++) pts.push(body(i))\<close>, on the array so far.\<close>

definition push_loop :: "nat \<Rightarrow> (nat \<Rightarrow> 'a) \<Rightarrow> 'a list \<Rightarrow> 'a list" where
  "push_loop n body pts = fold (\<lambda>i acc. acc @ [body i]) [0..<Suc n] pts"

definition makeLoop_pts :: "hstate \<Rightarrow> real \<Rightarrow> real \<Rightarrow> (real \<times> real) list" where
  "makeLoop_pts st Ees alpha =
     (let pts0 = [];
          pts1 = push_loop 20 (phase_a st alpha) pts0;
          pts2 = push_loop 12 (phase_b st) pts1;
          pts3 = push_loop 20 (phase_c st Ees) pts2;
          pts4 = push_loop 12 (phase_d st) pts3
      in pts4)"

subsection \<open>The component: scenario and manual mode\<close>

datatype mode = Scenario | Manual

text \<open>The key \<^verbatim>\<open>k\<close> a slider passes to \<^verbatim>\<open>slide(k, v)\<close>.\<close>

datatype slider = K_Ees | K_EDV | K_Ea | K_alpha

text \<open>The slider object \<^verbatim>\<open>sl\<close>: the four parameters and the flag \<^verbatim>\<open>_eaMoved\<close>.\<close>

record sliders = params +
  eaMoved :: bool

text \<open>The four \<^verbatim>\<open>useState\<close> cells of the component.\<close>

record app =
  scKey :: sckey
  step :: nat
  sl :: sliders
  mode :: mode

definition init :: app where
  "init = \<lparr>scKey = SC_normal, step = 0,
            sl = \<lparr>Ees_of = 5 / 2, EDV_of = 120, Ea_of = 2, alpha_of = 1 / 50, eaMoved = False\<rparr>,
            mode = Scenario\<rparr>"

text \<open>The computed property \<^verbatim>\<open>[k]: v\<close>, written last in both object literals.\<close>

fun set_key :: "slider \<Rightarrow> real \<Rightarrow> sliders \<Rightarrow> sliders" where
  "set_key K_Ees v s = s\<lparr>Ees_of := v\<rparr>"
| "set_key K_EDV v s = s\<lparr>EDV_of := v\<rparr>"
| "set_key K_Ea v s = s\<lparr>Ea_of := v\<rparr>"
| "set_key K_alpha v s = s\<lparr>alpha_of := v\<rparr>"

definition pickSc :: "sckey \<Rightarrow> app \<Rightarrow> app" where
  "pickSc k a = a\<lparr>scKey := k, step := 0, mode := Scenario\<rparr>"

definition slide :: "slider \<Rightarrow> real \<Rightarrow> app \<Rightarrow> app" where
  "slide k v a =
     (if mode a = Scenario then
        let snap = SC (scKey a) in
        a\<lparr>sl := set_key k v
                 \<lparr>Ees_of = Ees_of snap, EDV_of = EDV_of snap, Ea_of = Ea_of snap,
                  alpha_of = alpha_of snap, eaMoved = (k = K_Ea)\<rparr>,
          mode := Manual\<rparr>
      else
        a\<lparr>sl := set_key k v
                 ((sl a)\<lparr>eaMoved := (if k = K_Ea then True else eaMoved (sl a))\<rparr>),
          mode := Manual\<rparr>)"

text \<open>The state \<^verbatim>\<open>pv\<close> the component computes on every render.\<close>

definition pv :: "app \<Rightarrow> hstate" where
  "pv a =
     (if mode a = Scenario then
        computeState (Ees_of (SC (scKey a))) (EDV_of (SC (scKey a)))
          (Ea_of (SC (scKey a))) (alpha_of (SC (scKey a)))
      else if eaMoved (sl a) then
        computeState (Ees_of (sl a)) (EDV_of (sl a)) (Ea_of (sl a)) (alpha_of (sl a))
      else
        computePinned (Ees_of (sl a)) (EDV_of (sl a)) (alpha_of (sl a))
          (ESP normSt) (LVEDP normSt))"

text \<open>A run of slider moves, each followed by a render.\<close>

fun slides :: "(slider \<times> real) list \<Rightarrow> app \<Rightarrow> app" where
  "slides [] a = a"
| "slides ((k, v) # kvs) a = slides kvs (slide k v a)"

subsection \<open>The readout grid\<close>

text \<open>
  The arrow of the component \<^verbatim>\<open>D\<close>: nothing when the value is within \<open>0.5\<close> of the
  reference, otherwise up or down.
\<close>

datatype arrow = Up | Down

definition D :: "real \<Rightarrow> real \<Rightarrow> arrow option" where
  "D val ref =
     (let d = val - ref in
      if \<bar>d\<bar> < 1 / 2 then None else Some (if d > 0 then Up else Down))"

definition dispLVEDP :: "hstate \<Rightarrow> real" where
  "dispLVEDP st = min (LVEDP st) 50"

text \<open>One entry \<^verbatim>\<open>{ l, v, u, r }\<close> of the grid.\<close>

record readout =
  rd_l :: string
  rd_v :: real
  rd_u :: string
  rd_r :: real

definition readouts :: "hstate \<Rightarrow> readout list" where
  "readouts st =
     [\<lparr>rd_l = ''EDV'', rd_v = EDV st, rd_u = ''mL'', rd_r = EDV normSt\<rparr>,
      \<lparr>rd_l = ''LVEDP'', rd_v = dispLVEDP st, rd_u = ''mmHg'', rd_r = LVEDP normSt\<rparr>,
      \<lparr>rd_l = ''ESV'', rd_v = ESV st, rd_u = ''mL'', rd_r = ESV normSt\<rparr>,
      \<lparr>rd_l = ''Afterload'', rd_v = ESP st, rd_u = ''mmHg'', rd_r = ESP normSt\<rparr>,
      \<lparr>rd_l = ''Stroke Vol'', rd_v = SV st, rd_u = ''mL'', rd_r = SV normSt\<rparr>,
      \<lparr>rd_l = ''Ejection Fr'', rd_v = EF st, rd_u = ''%'', rd_r = EF normSt\<rparr>]"

text \<open>The arrow drawn beside a readout: \<^verbatim>\<open><D val={v} ref={r} />\<close>.\<close>

definition readout_arrow :: "readout \<Rightarrow> arrow option" where
  "readout_arrow rd = D (rd_v rd) (rd_r rd)"

subsection \<open>Pinned mode over JavaScript numbers\<close>

text \<open>
  \<^verbatim>\<open>computePinned\<close> divides by two of its arguments and takes a logarithm, so at some
  finite arguments JavaScript computes \<^verbatim>\<open>Infinity\<close> or \<^verbatim>\<open>NaN\<close> where the reals have
  no value. For these inputs the function is modelled a second time over numbers that
  carry the special values: a finite real, the two infinities, or \<^verbatim>\<open>NaN\<close>. Finite
  results are still exact (no rounding, no overflow), and a zero is the positive zero.
  The operations are those of the language: \<^verbatim>\<open>NaN\<close> propagates through arithmetic and
  through \<^verbatim>\<open>Math.min\<close> and \<^verbatim>\<open>Math.max\<close>, and every comparison with \<^verbatim>\<open>NaN\<close> is false.
\<close>

datatype jsnum = Fin real | PInf | NInf | NaN

fun js_neg :: "jsnum \<Rightarrow> jsnum" where
  "js_neg (Fin a) = Fin (- a)"
| "js_neg PInf = NInf"
| "js_neg NInf = PInf"
| "js_neg NaN = NaN"

fun js_add :: "jsnum \<Rightarrow> jsnum \<Rightarrow> jsnum" where
  "js_add (Fin a) (Fin b) = Fin (a + b)"
| "js_add (Fin a) PInf = PInf"
| "js_add (Fin a) NInf = NInf"
| "js_add PInf (Fin b) = PInf"
| "js_add PInf PInf = PInf"
| "js_add PInf NInf = NaN"
| "js_add NInf (Fin b) = NInf"
| "js_add NInf PInf = NaN"
| "js_add NInf NInf = NInf"
| "js_add NaN y = NaN"
| "js_add x NaN = NaN"

definition js_sub :: "jsnum \<Rightarrow> jsnum \<Rightarrow> jsnum" where
  "js_sub x y = js_add x (js_neg y)"

fun js_mul :: "jsnum \<Rightarrow> jsnum \<Rightarrow> jsnum" where
  "js_mul (Fin a) (Fin b) = Fin (a * b)"
| "js_mul (Fin a) PInf = (if a = 0 then NaN else if 0 < a then PInf else NInf)"
| "js_mul (Fin a) NInf = (if a = 0 then NaN else if 0 < a then NInf else PInf)"
| "js_mul PInf (Fin b) = (if b = 0 then NaN else if 0 < b then PInf else NInf)"
| "js_mul NInf (Fin b) = (if b = 0 then NaN else if 0 < b then NInf else PInf)"
| "js_mul PInf PInf = PInf"
| "js_mul PInf NInf = NInf"
| "js_mul NInf PInf = NInf"
| "js_mul NInf NInf = PInf"
| "js_mul NaN y = NaN"
| "js_mul x NaN = NaN"

fun js_div :: "jsnum \<Rightarrow> jsnum \<Rightarrow> jsnum" where
  "js_div (Fin a) (Fin b) =
     (if b = 0 then (if a = 0 then NaN else if 0 < a then PInf else NInf) else Fin (a / b))"
| "js_div (Fin a) PInf = Fin 0"
| "js_div (Fin a) NInf = Fin 0"
| "js_div PInf (Fin b) = (if 0 \<le> b then PInf else NInf)"
| "js_div NInf (Fin b) = (if 0 \<le> b then NInf else PInf)"
| "js_div PInf PInf = NaN"
| "js_div PInf NInf = NaN"
| "js_div NInf PInf = NaN"
| "js_div NInf NInf = NaN"
| "js_div NaN y = NaN"
| "js_div x NaN = NaN"

text \<open>\<^verbatim>\<open>Math.exp\<close> and \<^verbatim>\<open>Math.log\<close>.\<close>

fun js_exp :: "jsnum \<Rightarrow> jsnum" where
  "js_exp (Fin a) = Fin (exp a)"
| "js_exp PInf = PInf"
| "js_exp NInf = Fin 0"
| "js_exp NaN = NaN"

fun js_log :: "jsnum \<Rightarrow> jsnum" where
  "js_log (Fin a) = (if a < 0 then NaN else if a = 0 then NInf else Fin (ln a))"
| "js_log PInf = PInf"
| "js_log NInf = NaN"
| "js_log NaN = NaN"

text \<open>The comparisons \<^verbatim>\<open><=\<close> and \<^verbatim>\<open><\<close>.\<close>

fun js_le :: "jsnum \<Rightarrow> jsnum \<Rightarrow> bool" where
  "js_le (Fin a) (Fin b) = (a \<le> b)"
| "js_le (Fin a) PInf = True"
| "js_le (Fin a) NInf = False"
| "js_le PInf (Fin b) = False"
| "js_le PInf PInf = True"
| "js_le PInf NInf = False"
| "js_le NInf (Fin b) = True"
| "js_le NInf PInf = True"
| "js_le NInf NInf = True"
| "js_le NaN y = False"
| "js_le x NaN = False"

fun js_lt :: "jsnum \<Rightarrow> jsnum \<Rightarrow> bool" where
  "js_lt (Fin a) (Fin b) = (a < b)"
| "js_lt (Fin a) PInf = True"
| "js_lt (Fin a) NInf = False"
| "js_lt PInf y = False"
| "js_lt NInf (Fin b) = True"
| "js_lt NInf PInf = True"
| "js_lt NInf NInf = False"
| "js_lt NaN y = False"
| "js_lt x NaN = False"

text \<open>\<^verbatim>\<open>Math.min\<close> and \<^verbatim>\<open>Math.max\<close> of two arguments.\<close>

fun js_min :: "jsnum \<Rightarrow> jsnum \<Rightarrow> jsnum" where
  "js_min NaN y = NaN"
| "js_min x NaN = NaN"
| "js_min x y = (if js_le x y then x else y)"

fun js_max :: "jsnum \<Rightarrow> jsnum \<Rightarrow> jsnum" where
  "js_max NaN y = NaN"
| "js_max x NaN = NaN"
| "js_max x y = (if js_le x y then y else x)"

record hstate_js =
  EDV_js :: jsnum
  ESV_js :: jsnum
  ESP_js :: jsnum
  SV_js :: jsnum
  EF_js :: jsnum
  LVEDP_js :: jsnum
  esvP0_js :: jsnum

definition computePinned_js :: "jsnum \<Rightarrow> jsnum \<Rightarrow> jsnum \<Rightarrow> jsnum \<Rightarrow> jsnum \<Rightarrow> hstate_js" where
  "computePinned_js Ees sliderEDV alpha refESP refLVEDP =
     (let edv = js_max (Fin 50)
                  (js_min (js_div (js_log (js_add (js_div refLVEDP (Fin A_ED)) (Fin 1))) alpha)
                     sliderEDV);
          esv = js_min (js_add (js_div refESP Ees) (Fin V0)) (js_sub edv (Fin 1));
          esp = refESP;
          sv = js_sub edv esv;
          ef = js_mul (js_div sv edv) (Fin 100);
          lvedp = js_mul (Fin A_ED) (js_sub (js_exp (js_mul alpha edv)) (Fin 1));
          p0 = js_mul (Fin A_ED) (js_sub (js_exp (js_mul alpha esv)) (Fin 1))
      in \<lparr>EDV_js = edv, ESV_js = esv, ESP_js = esp, SV_js = sv, EF_js = ef,
          LVEDP_js = lvedp, esvP0_js = p0\<rparr>)"

section \<open>Properties\<close>

subsection \<open>Field equations of the solvers\<close>

lemma computeState_ESV:
  "ESV (computeState Ees edv Ea alpha) = (Ea * edv + Ees * V0) / (Ees + Ea)"
  by (simp add: computeState_def Let_def)

lemma computeState_EDV: "EDV (computeState Ees edv Ea alpha) = edv"
  by (simp add: computeState_def Let_def)

lemma computeState_SV:
  "SV (computeState Ees edv Ea alpha) = edv - ESV (computeState Ees edv Ea alpha)"
  by (simp add: computeState_def Let_def)

lemma computeState_ESP:
  "ESP (computeState Ees edv Ea alpha) = Ees * (ESV (computeState Ees edv Ea alpha) - V0)"
  by (simp add: computeState_def Let_def)

lemma computeState_EF:
  "EF (computeState Ees edv Ea alpha) = (SV (computeState Ees edv Ea alpha) / edv) * 100"
  by (simp add: computeState_def Let_def)

lemma computePinned_EDV:
  "EDV (computePinned Ees sliderEDV alpha refESP refLVEDP)
     = max 50 (min (ln (refLVEDP / A_ED + 1) / alpha) sliderEDV)"
  by (simp add: computePinned_def Let_def)

lemma computePinned_ESV:
  "ESV (computePinned Ees sliderEDV alpha refESP refLVEDP)
     = min (refESP / Ees + V0) (EDV (computePinned Ees sliderEDV alpha refESP refLVEDP) - 1)"
  by (simp add: computePinned_def Let_def)

lemma computePinned_LVEDP:
  "LVEDP (computePinned Ees sliderEDV alpha refESP refLVEDP)
     = edpvr (EDV (computePinned Ees sliderEDV alpha refESP refLVEDP)) alpha"
  by (simp add: computePinned_def edpvr_def Let_def)

lemma normSt_fields:
  "EDV normSt = 120" "ESV normSt = 530 / 9" "ESP normSt = 1100 / 9"
  "SV normSt = 550 / 9" "EF normSt = 1375 / 27"
  "LVEDP normSt = (exp (12 / 5) - 1) / 2"
  by (simp_all add: normSt_def NORM_def computeState_def Let_def V0_def A_ED_def)

subsection \<open>Direct mode\<close>

text \<open>
  C1. At the baseline parameters \<open>Ees = 2.5\<close>, \<open>EDV = 120\<close>, \<open>Ea = 2.0\<close>,
  \<open>alpha = 0.02\<close> the claim asks for \<open>ESV = 58.89\<close>, \<open>ESP = 122.22\<close>, \<open>SV = 61.11\<close>
  and \<open>EF = 50.9\<close>, each within \<open>0.01\<close>. The solver returns \<open>EF = 1375 / 27\<close>, which is
  \<open>50.9259...\<close>: further than \<open>0.01\<close> from \<open>50.9\<close>. So the claim as stated fails in its
  fourth figure.
\<close>

theorem baseline_EF_not_within_tolerance:
  "\<not> (\<bar>ESV (computeState (5 / 2) 120 2 (1 / 50)) - 5889 / 100\<bar> \<le> 1 / 100
      \<and> \<bar>ESP (computeState (5 / 2) 120 2 (1 / 50)) - 12222 / 100\<bar> \<le> 1 / 100
      \<and> \<bar>SV (computeState (5 / 2) 120 2 (1 / 50)) - 6111 / 100\<bar> \<le> 1 / 100
      \<and> \<bar>EF (computeState (5 / 2) 120 2 (1 / 50)) - 509 / 10\<bar> \<le> 1 / 100)"
  by (simp add: computeState_def Let_def V0_def)

text \<open>
  C1, amended. At the baseline parameters the solver returns \<open>ESV = 58.89\<close>,
  \<open>ESP = 122.22\<close>, \<open>SV = 61.11\<close> and \<open>EF = 50.93\<close>, each within \<open>0.01\<close>; the
  ejection fraction is \<open>1375 / 27\<close> exactly, within \<open>0.03\<close> of the quoted \<open>50.9\<close>.
\<close>

theorem baseline_values:
  "\<bar>ESV (computeState (5 / 2) 120 2 (1 / 50)) - 5889 / 100\<bar> \<le> 1 / 100
   \<and> \<bar>ESP (computeState (5 / 2) 120 2 (1 / 50)) - 12222 / 100\<bar> \<le> 1 / 100
   \<and> \<bar>SV (computeState (5 / 2) 120 2 (1 / 50)) - 6111 / 100\<bar> \<le> 1 / 100
   \<and> \<bar>EF (computeState (5 / 2) 120 2 (1 / 50)) - 5093 / 100\<bar> \<le> 1 / 100
   \<and> EF (computeState (5 / 2) 120 2 (1 / 50)) = 1375 / 27
   \<and> \<bar>EF (computeState (5 / 2) 120 2 (1 / 50)) - 509 / 10\<bar> \<le> 3 / 100"
  by (simp add: computeState_def Let_def V0_def)

text \<open>
  C2. With \<open>Ees > 0\<close>, \<open>Ea > 0\<close> and \<open>EDV > V0\<close> the direct-mode solver returns an
  end-systolic volume strictly between \<open>V0\<close> and \<open>EDV\<close>, and its stroke volume is
  \<open>EDV - ESV\<close>.
\<close>

theorem computeState_ESV_between:
  assumes "0 < Ees" and "0 < Ea" and "V0 < edv"
  shows "V0 < ESV (computeState Ees edv Ea alpha)
       \<and> ESV (computeState Ees edv Ea alpha) < EDV (computeState Ees edv Ea alpha)
       \<and> SV (computeState Ees edv Ea alpha)
           = EDV (computeState Ees edv Ea alpha) - ESV (computeState Ees edv Ea alpha)"
proof -
  have pos: "0 < Ees + Ea" using assms by simp
  have lo: "V0 * (Ees + Ea) < Ea * edv + Ees * V0"
  proof -
    have "Ea * V0 < Ea * edv" using assms by simp
    then show ?thesis by (simp add: algebra_simps)
  qed
  have hi: "Ea * edv + Ees * V0 < edv * (Ees + Ea)"
  proof -
    have "Ees * V0 < Ees * edv" using assms by simp
    then show ?thesis by (simp add: algebra_simps)
  qed
  have "V0 < (Ea * edv + Ees * V0) / (Ees + Ea)"
    using lo pos by (simp add: pos_less_divide_eq)
  moreover have "(Ea * edv + Ees * V0) / (Ees + Ea) < edv"
    using hi pos by (simp add: pos_divide_less_eq)
  ultimately show ?thesis
    by (simp add: computeState_ESV computeState_EDV computeState_SV)
qed

theorem computeState_ESV_between_witness:
  "(0::real) < 5 / 2 \<and> (0::real) < 2 \<and> V0 < 120
   \<and> V0 < ESV (computeState (5 / 2) 120 2 (1 / 50))
   \<and> ESV (computeState (5 / 2) 120 2 (1 / 50)) < EDV (computeState (5 / 2) 120 2 (1 / 50))
   \<and> SV (computeState (5 / 2) 120 2 (1 / 50))
       = EDV (computeState (5 / 2) 120 2 (1 / 50)) - ESV (computeState (5 / 2) 120 2 (1 / 50))"
proof -
  have a: "(0::real) < 5 / 2" and b: "(0::real) < 2" and c: "V0 < 120"
    by (simp_all add: V0_def)
  show ?thesis
    using a b c computeState_ESV_between [OF a b c, of "1 / 50"] by simp
qed

text \<open>
  C8, as stated, asks for no more than \<open>Ees > 0\<close> and \<open>Ea > 0\<close>. At an
  end-diastolic volume below \<open>V0\<close> the dependence on \<open>Ees\<close> is reversed: with
  \<open>EDV = 5\<close> and \<open>Ea = 2\<close>, raising \<open>Ees\<close> from \<open>1\<close> to \<open>2\<close> raises \<open>ESV\<close> and
  lowers \<open>EF\<close>.
\<close>

theorem contractility_monotone_fails_below_V0:
  "\<not> (ESV (computeState 2 5 2 (1 / 50)) < ESV (computeState 1 5 2 (1 / 50))
      \<and> EF (computeState 1 5 2 (1 / 50)) < EF (computeState 2 5 2 (1 / 50)))"
  by (simp add: computeState_def Let_def V0_def)

text \<open>
  C8, amended. Holding \<open>EDV\<close>, \<open>Ea\<close> and \<open>alpha\<close> fixed, with \<open>Ees > 0\<close>,
  \<open>Ea > 0\<close> and \<open>EDV > V0\<close>, a larger \<open>Ees\<close> gives a strictly smaller \<open>ESV\<close> and a
  strictly larger \<open>EF\<close> in direct mode.
\<close>

theorem contractility_monotone:
  assumes "0 < E1" and "E1 < E2" and "0 < Ea" and "V0 < edv"
  shows "ESV (computeState E2 edv Ea alpha) < ESV (computeState E1 edv Ea alpha)
       \<and> EF (computeState E1 edv Ea alpha) < EF (computeState E2 edv Ea alpha)"
proof -
  have p1: "0 < E1 + Ea" and p2: "0 < E2 + Ea"
    using assms by simp_all
  have edv_pos: "0 < edv"
    using assms by (simp add: V0_def)
  have "0 < Ea * ((edv - V0) * (E2 - E1))"
    using assms by simp
  then have "(Ea * edv + E2 * V0) * (E1 + Ea) < (Ea * edv + E1 * V0) * (E2 + Ea)"
    by (simp add: algebra_simps)
  then have "(Ea * edv + E2 * V0) / (E2 + Ea) < (Ea * edv + E1 * V0) / (E1 + Ea)"
    using p1 p2 by (simp add: field_simps)
  then have esv: "ESV (computeState E2 edv Ea alpha) < ESV (computeState E1 edv Ea alpha)"
    by (simp add: computeState_ESV)
  then have "SV (computeState E1 edv Ea alpha) < SV (computeState E2 edv Ea alpha)"
    by (simp add: computeState_SV)
  then have "SV (computeState E1 edv Ea alpha) * 100 / edv
               < SV (computeState E2 edv Ea alpha) * 100 / edv"
    using edv_pos by (simp add: divide_strict_right_mono)
  then have "EF (computeState E1 edv Ea alpha) < EF (computeState E2 edv Ea alpha)"
    by (simp add: computeState_EF)
  with esv show ?thesis by simp
qed

theorem contractility_monotone_witness:
  "(0::real) < 1 \<and> (1::real) < 2 \<and> (0::real) < 2 \<and> V0 < 120
   \<and> ESV (computeState 2 120 2 (1 / 50)) < ESV (computeState 1 120 2 (1 / 50))
   \<and> EF (computeState 1 120 2 (1 / 50)) < EF (computeState 2 120 2 (1 / 50))"
proof -
  have a: "(0::real) < 1" and b: "(1::real) < 2" and c: "(0::real) < 2" and d: "V0 < 120"
    by (simp_all add: V0_def)
  show ?thesis
    using a b c d contractility_monotone [OF a b c d, of "1 / 50"] by simp
qed

subsection \<open>Pinned mode\<close>

lemma js_min_Fin: "js_min (Fin a) (Fin b) = Fin (min a b)"
  by (simp add: min_def)

lemma js_max_Fin: "js_max (Fin a) (Fin b) = Fin (max a b)"
  by (simp add: max_def)

lemma js_sub_Fin: "js_sub (Fin a) (Fin b) = Fin (a - b)"
  by (simp add: js_sub_def)



text \<open>
  Where neither divisor is zero and the argument of the logarithm is positive, the
  solver over JavaScript numbers returns the finite numbers of the real-valued solver.
\<close>

lemma computePinned_js_finite:
  assumes "Ees \<noteq> 0" and "alpha \<noteq> 0" and "0 < refLVEDP / A_ED + 1"
  shows "computePinned_js (Fin Ees) (Fin sliderEDV) (Fin alpha) (Fin refESP) (Fin refLVEDP)
       = \<lparr>EDV_js = Fin (EDV (computePinned Ees sliderEDV alpha refESP refLVEDP)),
          ESV_js = Fin (ESV (computePinned Ees sliderEDV alpha refESP refLVEDP)),
          ESP_js = Fin (ESP (computePinned Ees sliderEDV alpha refESP refLVEDP)),
          SV_js = Fin (SV (computePinned Ees sliderEDV alpha refESP refLVEDP)),
          EF_js = Fin (EF (computePinned Ees sliderEDV alpha refESP refLVEDP)),
          LVEDP_js = Fin (LVEDP (computePinned Ees sliderEDV alpha refESP refLVEDP)),
          esvP0_js = Fin (esvP0 (computePinned Ees sliderEDV alpha refESP refLVEDP))\<rparr>"
proof -
  have a: "A_ED \<noteq> 0"
    by (simp add: A_ED_def)
  have arg: "\<not> refLVEDP / A_ED + 1 < 0" "refLVEDP / A_ED + 1 \<noteq> 0"
    using assms(3) by simp_all
  have "(50::real) \<le> max 50 (min (ln (refLVEDP / A_ED + 1) / alpha) sliderEDV)"
    by (rule max.cobounded1)
  then have edv: "max 50 (min (ln (refLVEDP / A_ED + 1) / alpha) sliderEDV) \<noteq> 0"
    by linarith
  show ?thesis
    using assms(1,2) a arg edv
    by (simp add: computePinned_js_def computePinned_def Let_def
        js_min_Fin js_max_Fin js_sub_Fin)
qed






text \<open>
  C9. With \<open>alpha > 0\<close> and \<open>refLVEDP > 0\<close>, when the logarithmic cap
  \<open>ln (refLVEDP / A_ED + 1) / alpha\<close> lies between \<open>50\<close> and the slider value, the
  returned \<open>EDV\<close> is that cap and the returned \<open>LVEDP\<close> is \<open>refLVEDP\<close> itself.
\<close>

theorem computePinned_LVEDP_pinned:
  assumes "0 < alpha" and "0 < refLVEDP"
    and "50 \<le> ln (refLVEDP / A_ED + 1) / alpha"
    and "ln (refLVEDP / A_ED + 1) / alpha \<le> sliderEDV"
  shows "EDV (computePinned Ees sliderEDV alpha refESP refLVEDP)
           = ln (refLVEDP / A_ED + 1) / alpha
       \<and> LVEDP (computePinned Ees sliderEDV alpha refESP refLVEDP) = refLVEDP"
proof -
  have edv: "EDV (computePinned Ees sliderEDV alpha refESP refLVEDP)
               = ln (refLVEDP / A_ED + 1) / alpha"
    using assms by (simp add: computePinned_EDV)
  have pos: "0 < refLVEDP / A_ED + 1"
    using assms by (simp add: A_ED_def)
  have "LVEDP (computePinned Ees sliderEDV alpha refESP refLVEDP)
          = A_ED * (exp (alpha * (ln (refLVEDP / A_ED + 1) / alpha)) - 1)"
    by (simp add: computePinned_LVEDP edv edpvr_def)
  also have "\<dots> = A_ED * (exp (ln (refLVEDP / A_ED + 1)) - 1)"
    using assms by simp
  also have "\<dots> = refLVEDP"
    using pos by (simp add: A_ED_def)
  finally show ?thesis using edv by simp
qed

lemma normSt_cap: "ln (LVEDP normSt / A_ED + 1) / (1 / 50) = 120"
proof -
  have "LVEDP normSt / A_ED + 1 = exp (12 / 5)"
    by (simp add: normSt_fields A_ED_def field_simps)
  then show ?thesis by simp
qed

lemma normSt_LVEDP_pos: "0 < LVEDP normSt"
  by (simp add: normSt_fields)

theorem computePinned_LVEDP_pinned_witness:
  "(0::real) < 1 / 50 \<and> 0 < LVEDP normSt
   \<and> 50 \<le> ln (LVEDP normSt / A_ED + 1) / (1 / 50)
   \<and> ln (LVEDP normSt / A_ED + 1) / (1 / 50) \<le> 150
   \<and> EDV (computePinned (5 / 2) 150 (1 / 50) (ESP normSt) (LVEDP normSt)) = 120
   \<and> LVEDP (computePinned (5 / 2) 150 (1 / 50) (ESP normSt) (LVEDP normSt)) = LVEDP normSt"
proof -
  have a: "(0::real) < 1 / 50" by simp
  have b: "0 < LVEDP normSt" by (rule normSt_LVEDP_pos)
  have c: "50 \<le> ln (LVEDP normSt / A_ED + 1) / (1 / 50)"
    unfolding normSt_cap by simp
  have d: "ln (LVEDP normSt / A_ED + 1) / (1 / 50) \<le> 150"
    unfolding normSt_cap by simp
  show ?thesis
    using a b c d computePinned_LVEDP_pinned [OF a b c d, of "5 / 2" "ESP normSt"]
    unfolding normSt_cap by simp
qed

subsection \<open>The loop generator\<close>

lemma push_loop_eq: "push_loop n body pts = pts @ map body [0..<Suc n]"
proof -
  have "fold (\<lambda>i acc. acc @ [body i]) xs acc0 = acc0 @ map body xs"
    for xs :: "nat list" and acc0
    by (induction xs arbitrary: acc0) simp_all
  then show ?thesis by (simp add: push_loop_def)
qed

lemma makeLoop_pts_eq:
  "makeLoop_pts st Ees alpha =
     map (phase_a st alpha) [0..<21] @ map (phase_b st) [0..<13]
     @ map (phase_c st Ees) [0..<21] @ map (phase_d st) [0..<13]"
  by (simp only: makeLoop_pts_def Let_def push_loop_eq append_Nil append_assoc eval_nat_numeral)

lemma makeLoop_pts_length: "length (makeLoop_pts st Ees alpha) = 68"
  by (simp add: makeLoop_pts_eq)

lemma makeLoop_pts_nth_a: "i < 21 \<Longrightarrow> makeLoop_pts st Ees alpha ! i = phase_a st alpha i"
  by (simp add: makeLoop_pts_eq nth_append)

lemma makeLoop_pts_nth_b: "i < 13 \<Longrightarrow> makeLoop_pts st Ees alpha ! (21 + i) = phase_b st i"
  by (simp add: makeLoop_pts_eq nth_append)

lemma makeLoop_pts_nth_c: "i < 21 \<Longrightarrow> makeLoop_pts st Ees alpha ! (34 + i) = phase_c st Ees i"
  by (simp add: makeLoop_pts_eq nth_append)

lemma makeLoop_pts_nth_d: "i < 13 \<Longrightarrow> makeLoop_pts st Ees alpha ! (55 + i) = phase_d st i"
  by (simp add: makeLoop_pts_eq nth_append)

lemma makeLoop_pts_nth_34: "makeLoop_pts st Ees alpha ! 34 = phase_c st Ees 0"
  using makeLoop_pts_nth_c [of 0 st Ees alpha] by simp

text \<open>
  The state of manual mode with the contractility slider at its minimum \<open>0.5\<close> and the
  other sliders at the normal scenario: the cap \<open>EDV - 1\<close> binds, and the pinned
  \<open>ESP\<close> lies far above the ESPVR at the volumes of the loop.
\<close>

lemma pinned_low_Ees_fields:
  "EDV (computePinned (1 / 2) 120 (1 / 50) (ESP normSt) (LVEDP normSt)) = 120"
  "ESV (computePinned (1 / 2) 120 (1 / 50) (ESP normSt) (LVEDP normSt)) = 119"
  "ESP (computePinned (1 / 2) 120 (1 / 50) (ESP normSt) (LVEDP normSt)) = 1100 / 9"
proof -
  show e: "EDV (computePinned (1 / 2) 120 (1 / 50) (ESP normSt) (LVEDP normSt)) = 120"
    unfolding computePinned_EDV normSt_cap by simp
  show "ESV (computePinned (1 / 2) 120 (1 / 50) (ESP normSt) (LVEDP normSt)) = 119"
    unfolding computePinned_ESV e by (simp add: normSt_fields V0_def)
  show "ESP (computePinned (1 / 2) 120 (1 / 50) (ESP normSt) (LVEDP normSt)) = 1100 / 9"
    by (simp add: computePinned_def Let_def normSt_fields)
qed

text \<open>
  C4, as stated, bounds every ejection sample above by \<open>espvr v Ees + 5\<close>. The floor
  \<open>ESP - 15\<close> is applied after that cap and wins over it. In manual mode with the
  contractility slider at \<open>0.5\<close> the first ejection sample (index \<open>34\<close> of the array)
  has volume \<open>120\<close> and pressure \<open>ESP - 15 = 107.2\<close>, while \<open>espvr 120 0.5 + 5 = 60\<close>.
\<close>

theorem ejection_exceeds_espvr_margin:
  "\<not> snd (makeLoop_pts (computePinned (1 / 2) 120 (1 / 50) (ESP normSt) (LVEDP normSt))
             (1 / 2) (1 / 50) ! 34)
      \<le> espvr (fst (makeLoop_pts (computePinned (1 / 2) 120 (1 / 50) (ESP normSt) (LVEDP normSt))
                     (1 / 2) (1 / 50) ! 34)) (1 / 2) + 5"
  by (simp add: makeLoop_pts_nth_34 phase_c_def Let_def pinned_low_Ees_fields espvr_def V0_def)

text \<open>
  C4, amended. Each of the 21 ejection samples \<open>(v, p)\<close> of the loop generator, at
  counter \<open>i\<close> from \<open>0\<close> to \<open>20\<close>, has \<open>v = EDV - (EDV - ESV) * (i / 20)\<close> and
  \<open>p = max (min (ESP + bow) (espvr v Ees + 5)) (ESP - 15)\<close> with
  \<open>bow = 8 * sin (i / 20 * pi)\<close>. So \<open>p \<ge> ESP - 15\<close>; \<open>p \<le> espvr v Ees + 5\<close>
  whenever that cap is not below the floor \<open>ESP - 15\<close>; and when the cap is below the
  floor the pressure is the floor itself.
\<close>

theorem ejection_clamps:
  assumes "i < 21"
  shows "fst (makeLoop_pts st Ees alpha ! (34 + i)) = EDV st - (EDV st - ESV st) * (real i / 20)
       \<and> snd (makeLoop_pts st Ees alpha ! (34 + i))
           = max (min (ESP st + 8 * sin (real i / 20 * pi))
                    (espvr (fst (makeLoop_pts st Ees alpha ! (34 + i))) Ees + 5))
               (ESP st - 15)
       \<and> ESP st - 15 \<le> snd (makeLoop_pts st Ees alpha ! (34 + i))
       \<and> (ESP st - 15 \<le> espvr (fst (makeLoop_pts st Ees alpha ! (34 + i))) Ees + 5
            \<longrightarrow> snd (makeLoop_pts st Ees alpha ! (34 + i))
                   \<le> espvr (fst (makeLoop_pts st Ees alpha ! (34 + i))) Ees + 5)
       \<and> (espvr (fst (makeLoop_pts st Ees alpha ! (34 + i))) Ees + 5 < ESP st - 15
            \<longrightarrow> snd (makeLoop_pts st Ees alpha ! (34 + i)) = ESP st - 15)"
  using assms by (simp add: makeLoop_pts_nth_c phase_c_def Let_def)

lemma normSt_sample_44: "makeLoop_pts normSt (5 / 2) (1 / 50) ! 44 = (805 / 9, 1172 / 9)"
  using makeLoop_pts_nth_c [of 10 normSt "5 / 2" "1 / 50"]
  by (simp add: phase_c_def Let_def normSt_fields espvr_def V0_def)

lemma pinned_low_Ees_sample_54:
  "makeLoop_pts (computePinned (1 / 2) 120 (1 / 50) (ESP normSt) (LVEDP normSt))
     (1 / 2) (1 / 50) ! 54 = (119, 965 / 9)"
  using makeLoop_pts_nth_c
    [of 20 "computePinned (1 / 2) 120 (1 / 50) (ESP normSt) (LVEDP normSt)" "1 / 2" "1 / 50"]
  by (simp add: phase_c_def Let_def pinned_low_Ees_fields espvr_def V0_def)

theorem ejection_clamps_witness:
  "(10::nat) < 21
   \<and> ESP normSt - 15 \<le> espvr (fst (makeLoop_pts normSt (5 / 2) (1 / 50) ! (34 + 10))) (5 / 2) + 5
   \<and> ESP normSt - 15 \<le> snd (makeLoop_pts normSt (5 / 2) (1 / 50) ! (34 + 10))
   \<and> snd (makeLoop_pts normSt (5 / 2) (1 / 50) ! (34 + 10))
        \<le> espvr (fst (makeLoop_pts normSt (5 / 2) (1 / 50) ! (34 + 10))) (5 / 2) + 5
   \<and> (20::nat) < 21
   \<and> espvr (fst (makeLoop_pts (computePinned (1 / 2) 120 (1 / 50) (ESP normSt) (LVEDP normSt))
                   (1 / 2) (1 / 50) ! (34 + 20))) (1 / 2) + 5
        < ESP (computePinned (1 / 2) 120 (1 / 50) (ESP normSt) (LVEDP normSt)) - 15
   \<and> snd (makeLoop_pts (computePinned (1 / 2) 120 (1 / 50) (ESP normSt) (LVEDP normSt))
            (1 / 2) (1 / 50) ! (34 + 20))
        = ESP (computePinned (1 / 2) 120 (1 / 50) (ESP normSt) (LVEDP normSt)) - 15"
proof -
  have a: "(10::nat) < 21" and b: "(20::nat) < 21"
    by simp_all
  have n: "makeLoop_pts normSt (5 / 2) (1 / 50) ! (34 + 10) = (805 / 9, 1172 / 9)"
    using normSt_sample_44 by simp
  have p: "makeLoop_pts (computePinned (1 / 2) 120 (1 / 50) (ESP normSt) (LVEDP normSt))
             (1 / 2) (1 / 50) ! (34 + 20) = (119, 965 / 9)"
    using pinned_low_Ees_sample_54 by simp
  have c: "ESP normSt - 15
             \<le> espvr (fst (makeLoop_pts normSt (5 / 2) (1 / 50) ! (34 + 10))) (5 / 2) + 5"
    unfolding n by (simp add: normSt_fields espvr_def V0_def)
  have d: "espvr (fst (makeLoop_pts (computePinned (1 / 2) 120 (1 / 50) (ESP normSt) (LVEDP normSt))
                        (1 / 2) (1 / 50) ! (34 + 20))) (1 / 2) + 5
             < ESP (computePinned (1 / 2) 120 (1 / 50) (ESP normSt) (LVEDP normSt)) - 15"
    unfolding p by (simp add: pinned_low_Ees_fields espvr_def V0_def)
  note t1 = ejection_clamps [OF a, of normSt "5 / 2" "1 / 50"]
  note t2 = ejection_clamps [OF b,
      of "computePinned (1 / 2) 120 (1 / 50) (ESP normSt) (LVEDP normSt)" "1 / 2" "1 / 50"]
  from t1 have 1: "ESP normSt - 15 \<le> snd (makeLoop_pts normSt (5 / 2) (1 / 50) ! (34 + 10))"
    by (elim conjE)
  from t1 have "ESP normSt - 15
        \<le> espvr (fst (makeLoop_pts normSt (5 / 2) (1 / 50) ! (34 + 10))) (5 / 2) + 5
      \<longrightarrow> snd (makeLoop_pts normSt (5 / 2) (1 / 50) ! (34 + 10))
            \<le> espvr (fst (makeLoop_pts normSt (5 / 2) (1 / 50) ! (34 + 10))) (5 / 2) + 5"
    by (elim conjE)
  with c have 2: "snd (makeLoop_pts normSt (5 / 2) (1 / 50) ! (34 + 10))
                    \<le> espvr (fst (makeLoop_pts normSt (5 / 2) (1 / 50) ! (34 + 10))) (5 / 2) + 5"
    by (rule rev_mp)
  from t2 have "espvr (fst (makeLoop_pts
          (computePinned (1 / 2) 120 (1 / 50) (ESP normSt) (LVEDP normSt))
          (1 / 2) (1 / 50) ! (34 + 20))) (1 / 2) + 5
        < ESP (computePinned (1 / 2) 120 (1 / 50) (ESP normSt) (LVEDP normSt)) - 15
      \<longrightarrow> snd (makeLoop_pts (computePinned (1 / 2) 120 (1 / 50) (ESP normSt) (LVEDP normSt))
                 (1 / 2) (1 / 50) ! (34 + 20))
            = ESP (computePinned (1 / 2) 120 (1 / 50) (ESP normSt) (LVEDP normSt)) - 15"
    by (elim conjE)
  with d have 3: "snd (makeLoop_pts (computePinned (1 / 2) 120 (1 / 50) (ESP normSt) (LVEDP normSt))
                         (1 / 2) (1 / 50) ! (34 + 20))
                    = ESP (computePinned (1 / 2) 120 (1 / 50) (ESP normSt) (LVEDP normSt)) - 15"
    by (rule rev_mp)
  from a b c d 1 2 3 show ?thesis
    by (intro conjI)
qed

text \<open>
  The bow is never negative on the 21 samples, so the uncapped pressure is at least
  \<open>ESP\<close>: the floor \<open>ESP - 15\<close> changes a sample exactly when the ESPVR cap lies
  below it.
\<close>

lemma ejection_bow_nonneg:
  assumes "i < 21"
  shows "0 \<le> sin (real i / 20 * pi)"
proof (rule sin_ge_zero)
  show "0 \<le> real i / 20 * pi"
    by simp
  have "real i / 20 \<le> 1"
    using assms by simp
  then have "real i / 20 * pi \<le> 1 * pi"
    by (rule mult_right_mono) simp
  then show "real i / 20 * pi \<le> pi"
    by simp
qed

lemma ejection_floor_binds_iff:
  assumes "i < 21"
  shows "snd (phase_c st Ees i) \<noteq> min (ESP st + 8 * sin (real i / 20 * pi))
                                      (espvr (fst (phase_c st Ees i)) Ees + 5)
         \<longleftrightarrow> espvr (fst (phase_c st Ees i)) Ees + 5 < ESP st - 15"
  using ejection_bow_nonneg [OF assms] by (auto simp add: phase_c_def Let_def min_def max_def)

text \<open>
  C7. The array of the loop generator is the 21 filling samples, the 13 samples of
  isovolumetric contraction, the 21 ejection samples and the 13 samples of
  isovolumetric relaxation, in this order. The filling phase starts at volume \<open>ESV\<close>
  (index \<open>0\<close>) and ends at volume \<open>EDV\<close> (index \<open>20\<close>); every contraction sample
  (indices \<open>21\<close> to \<open>33\<close>) has volume \<open>EDV\<close> and every relaxation sample (indices \<open>55\<close>
  to \<open>67\<close>) has volume \<open>ESV\<close>.
\<close>

theorem loop_geometry:
  "makeLoop_pts st Ees alpha =
     map (phase_a st alpha) [0..<21] @ map (phase_b st) [0..<13]
     @ map (phase_c st Ees) [0..<21] @ map (phase_d st) [0..<13]
   \<and> length (makeLoop_pts st Ees alpha) = 68
   \<and> fst (makeLoop_pts st Ees alpha ! 0) = ESV st
   \<and> fst (makeLoop_pts st Ees alpha ! 20) = EDV st
   \<and> (\<forall>i. 21 \<le> i \<and> i < 34 \<longrightarrow> fst (makeLoop_pts st Ees alpha ! i) = EDV st)
   \<and> (\<forall>i. 55 \<le> i \<and> i < 68 \<longrightarrow> fst (makeLoop_pts st Ees alpha ! i) = ESV st)"
proof -
  have a0: "fst (makeLoop_pts st Ees alpha ! 0) = ESV st"
    using makeLoop_pts_nth_a [of 0 st Ees alpha] by (simp add: phase_a_def Let_def)
  have a20: "fst (makeLoop_pts st Ees alpha ! 20) = EDV st"
    using makeLoop_pts_nth_a [of 20 st Ees alpha] by (simp add: phase_a_def Let_def)
  have b: "fst (makeLoop_pts st Ees alpha ! i) = EDV st" if "21 \<le> i" "i < 34" for i
  proof -
    have "i = 21 + (i - 21)" and "i - 21 < 13"
      using that by simp_all
    then show ?thesis
      using makeLoop_pts_nth_b [of "i - 21" st Ees alpha] by (simp add: phase_b_def Let_def)
  qed
  have d: "fst (makeLoop_pts st Ees alpha ! i) = ESV st" if "55 \<le> i" "i < 68" for i
  proof -
    have "i = 55 + (i - 55)" and "i - 55 < 13"
      using that by simp_all
    then show ?thesis
      using makeLoop_pts_nth_d [of "i - 55" st Ees alpha] by (simp add: phase_d_def Let_def)
  qed
  show ?thesis
    using a0 a20 b d makeLoop_pts_eq [of st Ees alpha] makeLoop_pts_length [of st Ees alpha]
    by blast
qed

theorem loop_geometry_witness:
  "((21::nat) \<le> 25 \<and> (25::nat) < 34)
   \<and> fst (makeLoop_pts normSt (5 / 2) (1 / 50) ! 25) = 120
   \<and> ((55::nat) \<le> 60 \<and> (60::nat) < 68)
   \<and> fst (makeLoop_pts normSt (5 / 2) (1 / 50) ! 60) = 530 / 9
   \<and> fst (makeLoop_pts normSt (5 / 2) (1 / 50) ! 0) = 530 / 9
   \<and> fst (makeLoop_pts normSt (5 / 2) (1 / 50) ! 20) = 120"
proof -
  note g = loop_geometry [of normSt "5 / 2" "1 / 50"]
  have b: "(21::nat) \<le> 25 \<and> (25::nat) < 34" and d: "(55::nat) \<le> 60 \<and> (60::nat) < 68"
    by simp_all
  from g have "\<forall>i. 21 \<le> i \<and> i < 34 \<longrightarrow> fst (makeLoop_pts normSt (5 / 2) (1 / 50) ! i) = EDV normSt"
    by (elim conjE)
  with b have 1: "fst (makeLoop_pts normSt (5 / 2) (1 / 50) ! 25) = EDV normSt"
    by blast
  from g have "\<forall>i. 55 \<le> i \<and> i < 68 \<longrightarrow> fst (makeLoop_pts normSt (5 / 2) (1 / 50) ! i) = ESV normSt"
    by (elim conjE)
  with d have 2: "fst (makeLoop_pts normSt (5 / 2) (1 / 50) ! 60) = ESV normSt"
    by blast
  from g have 3: "fst (makeLoop_pts normSt (5 / 2) (1 / 50) ! 0) = ESV normSt"
    by (elim conjE)
  from g have 4: "fst (makeLoop_pts normSt (5 / 2) (1 / 50) ! 20) = EDV normSt"
    by (elim conjE)
  show ?thesis
    using b d 1 2 3 4 by (simp add: normSt_fields)
qed

subsection \<open>Mode selection\<close>

lemma slide_mode: "mode (slide k v a) = Manual"
  by (simp add: slide_def Let_def)

lemma set_key_eaMoved: "eaMoved (set_key k v s) = eaMoved s"
  by (cases k) simp_all

lemma slide_Ea_eaMoved: "eaMoved (sl (slide K_Ea v a))"
  by (simp add: slide_def Let_def)

lemma slide_keeps_eaMoved:
  "mode a = Manual \<Longrightarrow> eaMoved (sl a) \<Longrightarrow> eaMoved (sl (slide k v a))"
  by (simp add: slide_def set_key_eaMoved)

lemma slides_keep_eaMoved:
  "mode a = Manual \<Longrightarrow> eaMoved (sl a) \<Longrightarrow>
     mode (slides kvs a) = Manual \<and> eaMoved (sl (slides kvs a))"
proof (induction kvs arbitrary: a)
  case Nil
  then show ?case by simp
next
  case (Cons kv kvs)
  obtain k v where kv: "kv = (k, v)"
    by (cases kv)
  have "mode (slide k v a) = Manual"
    by (rule slide_mode)
  moreover have "eaMoved (sl (slide k v a))"
    using Cons.prems by (rule slide_keeps_eaMoved)
  ultimately show ?case
    using Cons.IH [of "slide k v a"] kv by simp
qed

lemma slide_after_pickSc_eaMoved:
  "eaMoved (sl (slide k v (pickSc key a))) = (k = K_Ea)"
  by (simp add: slide_def pickSc_def Let_def set_key_eaMoved)

lemma pv_direct:
  "mode a = Manual \<Longrightarrow> eaMoved (sl a) \<Longrightarrow>
     pv a = computeState (Ees_of (sl a)) (EDV_of (sl a)) (Ea_of (sl a)) (alpha_of (sl a))"
  by (simp add: pv_def)

lemma pv_pinned:
  "mode a = Manual \<Longrightarrow> \<not> eaMoved (sl a) \<Longrightarrow>
     pv a = computePinned (Ees_of (sl a)) (EDV_of (sl a)) (alpha_of (sl a))
              (ESP normSt) (LVEDP normSt)"
  by (simp add: pv_def)

lemma slide_non_Ea_keeps_clear:
  "k \<noteq> K_Ea \<Longrightarrow> mode a = Manual \<Longrightarrow> \<not> eaMoved (sl a) \<Longrightarrow>
     \<not> eaMoved (sl (slide k v a))"
  by (simp add: slide_def set_key_eaMoved)

lemma slides_non_Ea_keep_clear:
  "\<forall>kv \<in> set kvs. fst kv \<noteq> K_Ea \<Longrightarrow> mode a = Manual \<Longrightarrow> \<not> eaMoved (sl a) \<Longrightarrow>
     mode (slides kvs a) = Manual \<and> \<not> eaMoved (sl (slides kvs a))"
proof (induction kvs arbitrary: a)
  case Nil
  then show ?case by simp
next
  case (Cons kv kvs)
  obtain k v where kv: "kv = (k, v)"
    by (cases kv)
  with Cons.prems have k: "k \<noteq> K_Ea" and rest: "\<forall>kv \<in> set kvs. fst kv \<noteq> K_Ea"
    by simp_all
  have "mode (slide k v a) = Manual"
    by (rule slide_mode)
  moreover have "\<not> eaMoved (sl (slide k v a))"
    using k Cons.prems(2,3) by (rule slide_non_Ea_keeps_clear)
  ultimately show ?case
    using Cons.IH [OF rest, of "slide k v a"] kv by simp
qed

lemma slides_non_Ea_after_pickSc:
  assumes "kvs \<noteq> []" and "\<forall>kv \<in> set kvs. fst kv \<noteq> K_Ea"
  shows "mode (slides kvs (pickSc key a)) = Manual
       \<and> \<not> eaMoved (sl (slides kvs (pickSc key a)))"
proof -
  obtain k v rest where kvs: "kvs = (k, v) # rest"
    using assms(1) by (cases kvs) auto
  with assms(2) have k: "k \<noteq> K_Ea" and rest: "\<forall>kv \<in> set rest. fst kv \<noteq> K_Ea"
    by simp_all
  have "mode (slide k v (pickSc key a)) = Manual"
    by (rule slide_mode)
  moreover have "\<not> eaMoved (sl (slide k v (pickSc key a)))"
    using k by (simp add: slide_after_pickSc_eaMoved)
  ultimately show ?thesis
    using slides_non_Ea_keep_clear [OF rest, of "slide k v (pickSc key a)"] kvs by simp
qed

text \<open>
  C5. From any state of the component, once the \<open>Ea\<close> slider has been moved, after
  every further run of slider moves (of any of the four sliders) the component is in
  manual mode with the flag set, and the state it computes is the direct-mode one: slider
  moves alone never clear the flag. Once a scenario is picked again, after every
  non-empty run of moves of sliders other than \<open>Ea\<close> the component is in manual mode
  with the flag cleared, and the state it computes is the pinned-mode one, with the
  baseline \<open>ESP\<close> and \<open>LVEDP\<close>.
\<close>

theorem ea_moved_is_one_way:
  "(let a' = slides kvs (slide K_Ea v a) in
      mode a' = Manual \<and> eaMoved (sl a')
      \<and> pv a' = computeState (Ees_of (sl a')) (EDV_of (sl a')) (Ea_of (sl a')) (alpha_of (sl a')))
   \<and> (kvs' \<noteq> [] \<and> (\<forall>kv \<in> set kvs'. fst kv \<noteq> K_Ea) \<longrightarrow>
        (let a'' = slides kvs' (pickSc key (slides kvs (slide K_Ea v a))) in
           mode a'' = Manual \<and> \<not> eaMoved (sl a'')
           \<and> pv a'' = computePinned (Ees_of (sl a'')) (EDV_of (sl a'')) (alpha_of (sl a''))
                        (ESP normSt) (LVEDP normSt)))"
proof -
  define a' where "a' = slides kvs (slide K_Ea v a)"
  define a'' where "a'' = slides kvs' (pickSc key a')"
  have m: "mode a' = Manual" and e: "eaMoved (sl a')"
    unfolding a'_def using slides_keep_eaMoved [OF slide_mode slide_Ea_eaMoved] by simp_all
  have direct: "pv a' = computeState (Ees_of (sl a')) (EDV_of (sl a')) (Ea_of (sl a'))
                          (alpha_of (sl a'))"
    using m e by (rule pv_direct)
  have pinned: "mode a'' = Manual \<and> \<not> eaMoved (sl a'')
                \<and> pv a'' = computePinned (Ees_of (sl a'')) (EDV_of (sl a'')) (alpha_of (sl a''))
                             (ESP normSt) (LVEDP normSt)"
    if "kvs' \<noteq> [] \<and> (\<forall>kv \<in> set kvs'. fst kv \<noteq> K_Ea)"
  proof -
    have "mode a'' = Manual \<and> \<not> eaMoved (sl a'')"
      unfolding a''_def using that by (intro slides_non_Ea_after_pickSc) simp_all
    then show ?thesis
      by (simp add: pv_pinned)
  qed
  show ?thesis
    using m e direct pinned
    unfolding Let_def a''_def a'_def by blast
qed

theorem ea_moved_is_one_way_witness:
  "([(K_EDV, 100), (K_Ees, 3 / 2 :: real)] \<noteq> [] \<and> K_EDV \<noteq> K_Ea \<and> K_Ees \<noteq> K_Ea)
   \<and> mode (slides [(K_Ees, 3), (K_alpha, 3 / 100)] (slide K_Ea 3 init)) = Manual
   \<and> eaMoved (sl (slides [(K_Ees, 3), (K_alpha, 3 / 100)] (slide K_Ea 3 init)))
   \<and> pv (slides [(K_Ees, 3), (K_alpha, 3 / 100)] (slide K_Ea 3 init))
       = computeState 3 120 3 (3 / 100)
   \<and> \<not> eaMoved (sl (slides [(K_EDV, 100), (K_Ees, 3 / 2)]
          (pickSc SC_hfref (slides [(K_Ees, 3), (K_alpha, 3 / 100)] (slide K_Ea 3 init)))))
   \<and> pv (slides [(K_EDV, 100), (K_Ees, 3 / 2)]
          (pickSc SC_hfref (slides [(K_Ees, 3), (K_alpha, 3 / 100)] (slide K_Ea 3 init))))
       = computePinned (3 / 2) 100 (1 / 50) (ESP normSt) (LVEDP normSt)"
proof -
  have h: "[(K_EDV, 100), (K_Ees, 3 / 2)] \<noteq> []
             \<and> (\<forall>kv \<in> set [(K_EDV, 100), (K_Ees, 3 / 2 :: real)]. fst kv \<noteq> K_Ea)"
    by simp
  have s1: "sl (slides [(K_Ees, 3), (K_alpha, 3 / 100)] (slide K_Ea 3 init))
              = \<lparr>Ees_of = 3, EDV_of = 120, Ea_of = 3, alpha_of = 3 / 100, eaMoved = True\<rparr>"
    by (simp add: slide_def init_def Let_def)
  have s2: "sl (slides [(K_EDV, 100), (K_Ees, 3 / 2)]
              (pickSc SC_hfref (slides [(K_Ees, 3), (K_alpha, 3 / 100)] (slide K_Ea 3 init))))
              = \<lparr>Ees_of = 3 / 2, EDV_of = 100, Ea_of = 11 / 5, alpha_of = 1 / 50,
                 eaMoved = False\<rparr>"
    by (simp add: slide_def pickSc_def init_def Let_def)
  note t = ea_moved_is_one_way
    [of "[(K_Ees, 3), (K_alpha, 3 / 100)]" 3 init "[(K_EDV, 100), (K_Ees, 3 / 2)]" SC_hfref]
  from t have 1: "mode (slides [(K_Ees, 3), (K_alpha, 3 / 100)] (slide K_Ea 3 init)) = Manual
      \<and> eaMoved (sl (slides [(K_Ees, 3), (K_alpha, 3 / 100)] (slide K_Ea 3 init)))
      \<and> pv (slides [(K_Ees, 3), (K_alpha, 3 / 100)] (slide K_Ea 3 init))
          = computeState 3 120 3 (3 / 100)"
    unfolding Let_def s1 by simp
  from t h have 2: "\<not> eaMoved (sl (slides [(K_EDV, 100), (K_Ees, 3 / 2)]
          (pickSc SC_hfref (slides [(K_Ees, 3), (K_alpha, 3 / 100)] (slide K_Ea 3 init)))))
      \<and> pv (slides [(K_EDV, 100), (K_Ees, 3 / 2)]
          (pickSc SC_hfref (slides [(K_Ees, 3), (K_alpha, 3 / 100)] (slide K_Ea 3 init))))
          = computePinned (3 / 2) 100 (1 / 50) (ESP normSt) (LVEDP normSt)"
    unfolding Let_def s2 by simp
  have "[(K_EDV, 100), (K_Ees, 3 / 2 :: real)] \<noteq> [] \<and> K_EDV \<noteq> K_Ea \<and> K_Ees \<noteq> K_Ea"
    by simp
  with 1 2 show ?thesis
    by blast
qed

subsection \<open>Degenerate compliance\<close>

text \<open>
  C6. For every slider value: when \<open>alpha\<close> is within \<open>0.001\<close> of \<open>REF_ALPHA\<close>,
  \<open>getEffectiveEDV\<close> returns the slider value unchanged; when \<open>alpha \<le> 0.001\<close> it
  returns \<open>min (sliderEDV * 1.3) 200\<close>; and the quotient by \<open>alpha\<close> is the result
  only in the remaining case, where \<open>alpha > 0.001\<close>, so the divisor is not zero
  there.
\<close>

theorem getEffectiveEDV_paths:
  "(\<bar>alpha - REF_ALPHA\<bar> < 1 / 1000 \<longrightarrow> getEffectiveEDV sliderEDV alpha = sliderEDV)
   \<and> (alpha \<le> 1 / 1000 \<longrightarrow>
         getEffectiveEDV sliderEDV alpha = min (sliderEDV * (13 / 10)) 200)
   \<and> (\<not> \<bar>alpha - REF_ALPHA\<bar> < 1 / 1000 \<and> \<not> alpha \<le> 1 / 1000 \<longrightarrow>
         1 / 1000 < alpha \<and> alpha \<noteq> 0
         \<and> getEffectiveEDV sliderEDV alpha
             = max 50 (min (ln (edpvr sliderEDV REF_ALPHA / A_ED + 1) / alpha) 200))"
proof (intro conjI impI)
  assume "\<bar>alpha - REF_ALPHA\<bar> < 1 / 1000"
  then show "getEffectiveEDV sliderEDV alpha = sliderEDV"
    by (simp add: getEffectiveEDV_def)
next
  assume low: "alpha \<le> 1 / 1000"
  then have "\<not> \<bar>alpha - REF_ALPHA\<bar> < 1 / 1000"
    by (simp add: REF_ALPHA_def)
  with low show "getEffectiveEDV sliderEDV alpha = min (sliderEDV * (13 / 10)) 200"
    by (simp add: getEffectiveEDV_def Let_def)
next
  assume rest: "\<not> \<bar>alpha - REF_ALPHA\<bar> < 1 / 1000 \<and> \<not> alpha \<le> 1 / 1000"
  then show "1 / 1000 < alpha"
    by simp
  from rest show "alpha \<noteq> 0"
    by auto
  from rest show "getEffectiveEDV sliderEDV alpha
                    = max 50 (min (ln (edpvr sliderEDV REF_ALPHA / A_ED + 1) / alpha) 200)"
    by (simp add: getEffectiveEDV_def Let_def edpvr_def mult.commute)
qed

theorem getEffectiveEDV_paths_witness:
  "\<bar>41 / 2000 - REF_ALPHA\<bar> < 1 / 1000 \<and> getEffectiveEDV 120 (41 / 2000) = 120
   \<and> (0::real) \<le> 1 / 1000 \<and> getEffectiveEDV 120 0 = 156
   \<and> (1 / 1000 :: real) \<le> 1 / 1000 \<and> getEffectiveEDV 180 (1 / 1000) = 200
   \<and> (\<not> \<bar>1 / 100 - REF_ALPHA\<bar> < 1 / 1000 \<and> \<not> (1 / 100 :: real) \<le> 1 / 1000)
   \<and> getEffectiveEDV 60 (1 / 100) = 120"
proof -
  have a: "\<bar>41 / 2000 - REF_ALPHA\<bar> < 1 / 1000"
    by (simp add: REF_ALPHA_def)
  have b: "(0::real) \<le> 1 / 1000" and c: "(1 / 1000 :: real) \<le> 1 / 1000"
    by simp_all
  have d: "\<not> \<bar>1 / 100 - REF_ALPHA\<bar> < 1 / 1000 \<and> \<not> (1 / 100 :: real) \<le> 1 / 1000"
    by (simp add: REF_ALPHA_def)
  have "edpvr 60 REF_ALPHA / A_ED + 1 = exp (6 / 5)"
    by (simp add: edpvr_def REF_ALPHA_def A_ED_def field_simps)
  then have inv: "max 50 (min (ln (edpvr 60 REF_ALPHA / A_ED + 1) / (1 / 100)) 200) = (120::real)"
    by simp
  have 1: "getEffectiveEDV 120 (41 / 2000) = 120"
    using a getEffectiveEDV_paths [of "41 / 2000" 120] by blast
  have 2: "getEffectiveEDV 120 0 = 156"
    using b getEffectiveEDV_paths [of 0 120] by simp
  have 3: "getEffectiveEDV 180 (1 / 1000) = 200"
    using c getEffectiveEDV_paths [of "1 / 1000" 180] by simp
  have 4: "getEffectiveEDV 60 (1 / 100) = 120"
    using d inv getEffectiveEDV_paths [of "1 / 100" 60] by simp
  show ?thesis
    using a b c d 1 2 3 4 by blast
qed

subsection \<open>The readout grid\<close>

lemma exp_36_5_lower: "(101::real) < exp (36 / 5)"
proof -
  have "(19 / 10 :: real) \<le> exp (9 / 10)"
    using exp_ge_add_one_self [of "9 / 10"] by simp
  then have "(19 / 10 :: real) ^ 8 \<le> exp (9 / 10) ^ 8"
    by (rule power_mono) simp
  moreover have "exp (9 / 10 :: real) ^ 8 = exp (of_nat 8 * (9 / 10))"
    by (rule exp_of_nat_mult [symmetric])
  moreover have "(101::real) < (19 / 10) ^ 8"
    by (simp add: power_divide)
  ultimately show ?thesis by simp
qed

text \<open>
  C10. Of the six readouts the grid shows, \<open>EDV\<close>, \<open>ESV\<close>, \<open>ESP\<close>, \<open>SV\<close> and \<open>EF\<close> are
  the fields of the computed state; the \<open>LVEDP\<close> readout is \<open>min LVEDP 50\<close>, and that
  capped value is also the one its arrow compares with the baseline \<open>LVEDP\<close>. So when the
  computed \<open>LVEDP\<close> exceeds \<open>50\<close> the readout is \<open>50\<close>, below the computed value.
\<close>

theorem readout_LVEDP_capped:
  "map rd_l (readouts st)
     = [''EDV'', ''LVEDP'', ''ESV'', ''Afterload'', ''Stroke Vol'', ''Ejection Fr'']
   \<and> map rd_v (readouts st) = [EDV st, min (LVEDP st) 50, ESV st, ESP st, SV st, EF st]
   \<and> map readout_arrow (readouts st)
       = [D (EDV st) (EDV normSt), D (min (LVEDP st) 50) (LVEDP normSt),
          D (ESV st) (ESV normSt), D (ESP st) (ESP normSt), D (SV st) (SV normSt),
          D (EF st) (EF normSt)]
   \<and> (50 < LVEDP st \<longrightarrow> rd_v (readouts st ! 1) = 50 \<and> rd_v (readouts st ! 1) < LVEDP st)"
  by (simp add: readouts_def readout_arrow_def dispLVEDP_def)

theorem readout_LVEDP_capped_witness:
  "50 < LVEDP (computeState (5 / 2) 180 2 (1 / 25))
   \<and> rd_v (readouts (computeState (5 / 2) 180 2 (1 / 25)) ! 1) = 50
   \<and> rd_v (readouts (computeState (5 / 2) 180 2 (1 / 25)) ! 1)
       < LVEDP (computeState (5 / 2) 180 2 (1 / 25))"
proof -
  have "LVEDP (computeState (5 / 2) 180 2 (1 / 25)) = (exp (36 / 5) - 1) / 2"
    by (simp add: computeState_def Let_def A_ED_def)
  then have h: "50 < LVEDP (computeState (5 / 2) 180 2 (1 / 25))"
    using exp_36_5_lower by simp
  show ?thesis
    using h readout_LVEDP_capped [of "computeState (5 / 2) 180 2 (1 / 25)"] by blast
qed

end
